theory Spec2Isabelle
  imports Complex_Main "HOL-Library.Sublist" "HOL-Library.List_Lexorder" "HOL-Library.Char_ord"
begin

section \<open>The beat catalogue: data model\<close>

text \<open>
  The catalogue server of \<^verbatim>\<open>index.ts\<close> keeps one \<^verbatim>\<open>StableBTreeMap<string, Beat>\<close> and
  answers nine routes. Each route handler is embedded as a function from the store (and
  the values the handler reads from its environment) to the new store and the typed
  outcome. Text is modelled as lists of 8-bit characters, read as the code points U+0000
  to U+00FF, a \<^verbatim>\<open>Date\<close> as its millisecond count, and a request body as a record of
  optional, well-typed fields.
\<close>

type_synonym Date = int

text \<open>\<^verbatim>\<open>interface Beat\<close>. The field \<^verbatim>\<open>id\<close> is called \<open>id_field\<close> here, as \<open>id\<close> is the
  identity function of HOL.\<close>

record Beat =
  id_field :: string
  title :: string
  artist :: string
  price :: real
  url :: string
  createdAt :: Date
  updatedAt :: "Date option"
  sold :: bool
  featured :: bool

text \<open>
  The body of \<^verbatim>\<open>PUT /beats/:id\<close>: any subset of the fields of a beat. \<open>None\<close> is a
  field the caller left out. The handler reads the body with a spread, so a body may
  name every field of the record, not only the four catalogue fields.
\<close>

record Body =
  b_id :: "string option"
  b_title :: "string option"
  b_artist :: "string option"
  b_price :: "real option"
  b_url :: "string option"
  b_createdAt :: "Date option"
  b_updatedAt :: "Date option option"
  b_sold :: "bool option"
  b_featured :: "bool option"

text \<open>
  The body of \<^verbatim>\<open>POST /beats\<close>: the four catalogue fields, which the declared type of a
  beat requires, and whatever else of a beat the caller chose to send along.
\<close>

record NewBody =
  n_title :: string
  n_artist :: string
  n_price :: real
  n_url :: string
  n_id :: "string option"
  n_createdAt :: "Date option"
  n_updatedAt :: "Date option option"
  n_sold :: "bool option"
  n_featured :: "bool option"

text \<open>The two failures of the catalogue. The handlers answer \<open>NotFound\<close> with status 404
  (get, buy, feature) or 400 (update, delete), and \<open>AlreadySold\<close> with status 400.\<close>

datatype error = NotFound | AlreadySold

section \<open>The key-value store\<close>

text \<open>
  Modelled from the spec: \<^verbatim>\<open>StableBTreeMap\<close> of the azle library, which is not part of
  the repository. It is an ordered map from identifiers to records with the operations
  get, insert (inserts or overwrites), remove and values (in ascending key order). The
  model is an association list that \<open>store_insert\<close> keeps in key order.
\<close>

type_synonym store = "(string \<times> Beat) list"

fun store_get :: "store \<Rightarrow> string \<Rightarrow> Beat option" where
  "store_get [] k = None"
| "store_get ((k', v) # s) k = (if k = k' then Some v else store_get s k)"

fun store_insert :: "string \<Rightarrow> Beat \<Rightarrow> store \<Rightarrow> store" where
  "store_insert k v [] = [(k, v)]"
| "store_insert k v ((k', v') # s) =
     (if k = k' then (k, v) # s
      else if k < k' then (k, v) # (k', v') # s
      else (k', v') # store_insert k v s)"

fun store_remove :: "string \<Rightarrow> store \<Rightarrow> store" where
  "store_remove k [] = []"
| "store_remove k ((k', v) # s) =
     (if k = k' then store_remove k s else (k', v) # store_remove k s)"


definition store_keys :: "store \<Rightarrow> string set" where
  "store_keys s = set (map fst s)"

section \<open>The route handlers\<close>

text \<open>\<^verbatim>\<open>beatFinder\<close>.\<close>

definition beatFinder :: "store \<Rightarrow> string \<Rightarrow> Beat option" where
  "beatFinder s ident = store_get s ident"

text \<open>
  \<^verbatim>\<open>POST /beats\<close>. \<open>uuid\<close> is the value \<^verbatim>\<open>uuidv4()\<close> returned and \<open>now\<close> the value
  \<^verbatim>\<open>getCurrentDate()\<close> returned in this call. In the object literal the body is spread
  after \<^verbatim>\<open>id\<close> and \<^verbatim>\<open>createdAt\<close> and before \<^verbatim>\<open>updatedAt\<close>, \<^verbatim>\<open>sold\<close> and \<^verbatim>\<open>featured\<close>:
  the body overrides the first two and is overridden on the last three.
\<close>

definition new_beat :: "string \<Rightarrow> Date \<Rightarrow> NewBody \<Rightarrow> Beat" where
  "new_beat uuid now body =
     \<lparr> id_field = (case n_id body of Some i \<Rightarrow> i | None \<Rightarrow> uuid),
       title = n_title body,
       artist = n_artist body,
       price = n_price body,
       url = n_url body,
       createdAt = (case n_createdAt body of Some d \<Rightarrow> d | None \<Rightarrow> now),
       updatedAt = None,
       sold = False,
       featured = False \<rparr>"

definition create :: "string \<Rightarrow> Date \<Rightarrow> NewBody \<Rightarrow> store \<Rightarrow> store \<times> Beat" where
  "create uuid now body s =
     (let beat = new_beat uuid now body
      in (store_insert (id_field beat) beat s, beat))"


text \<open>\<^verbatim>\<open>GET /beats/:id\<close>.\<close>

definition getById :: "string \<Rightarrow> store \<Rightarrow> error + Beat" where
  "getById beatId s =
     (case beatFinder s beatId of None \<Rightarrow> Inl NotFound | Some beat \<Rightarrow> Inr beat)"

text \<open>
  \<^verbatim>\<open>PUT /beats/:id\<close>. The merged object is the stored beat, then the body spread over
  it, then \<^verbatim>\<open>updatedAt\<close>. It is inserted under \<^verbatim>\<open>beat.id\<close>, the id field of the beat
  that was found, not under the id of the request.
\<close>

definition merge :: "Beat \<Rightarrow> Body \<Rightarrow> Date \<Rightarrow> Beat" where
  "merge beat body now =
     \<lparr> id_field = (case b_id body of Some x \<Rightarrow> x | None \<Rightarrow> id_field beat),
       title = (case b_title body of Some x \<Rightarrow> x | None \<Rightarrow> title beat),
       artist = (case b_artist body of Some x \<Rightarrow> x | None \<Rightarrow> artist beat),
       price = (case b_price body of Some x \<Rightarrow> x | None \<Rightarrow> price beat),
       url = (case b_url body of Some x \<Rightarrow> x | None \<Rightarrow> url beat),
       createdAt = (case b_createdAt body of Some x \<Rightarrow> x | None \<Rightarrow> createdAt beat),
       updatedAt = Some now,
       sold = (case b_sold body of Some x \<Rightarrow> x | None \<Rightarrow> sold beat),
       featured = (case b_featured body of Some x \<Rightarrow> x | None \<Rightarrow> featured beat) \<rparr>"

definition update :: "string \<Rightarrow> Date \<Rightarrow> Body \<Rightarrow> store \<Rightarrow> store \<times> (error + Beat)" where
  "update beatId now body s =
     (case beatFinder s beatId of
        None \<Rightarrow> (s, Inl NotFound)
      | Some beat \<Rightarrow>
          (let updatedBeat = merge beat body now
           in (store_insert (id_field beat) updatedBeat s, Inr updatedBeat)))"

text \<open>\<^verbatim>\<open>DELETE /beats/:id\<close>. The handler removes first and then looks at what was removed.\<close>

definition delete :: "string \<Rightarrow> store \<Rightarrow> store \<times> (error + Beat)" where
  "delete beatId s =
     (case store_get s beatId of
        None \<Rightarrow> (store_remove beatId s, Inl NotFound)
      | Some deletedBeat \<Rightarrow> (store_remove beatId s, Inr deletedBeat))"

text \<open>\<^verbatim>\<open>POST /beats/:id/buy\<close>. The bought beat is inserted under its own id field.\<close>

definition buy :: "string \<Rightarrow> Date \<Rightarrow> store \<Rightarrow> store \<times> (error + Beat)" where
  "buy beatId now s =
     (case beatFinder s beatId of
        None \<Rightarrow> (s, Inl NotFound)
      | Some beat \<Rightarrow>
          if sold beat then (s, Inl AlreadySold)
          else (let beat' = beat\<lparr>sold := True, updatedAt := Some now\<rparr>
                in (store_insert (id_field beat') beat' s, Inr beat')))"

text \<open>\<^verbatim>\<open>POST /beats/:id/feature\<close>.\<close>

definition feature :: "string \<Rightarrow> Date \<Rightarrow> store \<Rightarrow> store \<times> (error + Beat)" where
  "feature beatId now s =
     (case beatFinder s beatId of
        None \<Rightarrow> (s, Inl NotFound)
      | Some beat \<Rightarrow>
          (let beat' = beat\<lparr>featured := True, updatedAt := Some now\<rparr>
           in (store_insert (id_field beat') beat' s, Inr beat')))"






section \<open>Sequences of requests\<close>

text \<open>
  A request as the transport layer hands it over, with the values its handler reads from
  the environment: the \<^verbatim>\<open>uuidv4()\<close> result for a create and the \<^verbatim>\<open>getCurrentDate()\<close>
  result for every handler that stamps a time. \<open>step\<close> is the effect of one request on
  the store; the four reading routes leave it as it is.
\<close>

datatype call =
    Create string Date NewBody
  | GetAll
  | GetById string
  | Update string Date Body
  | Delete string
  | Buy string Date
  | Feature string Date
  | SearchByArtist string
  | SearchByTitle string

fun step :: "call \<Rightarrow> store \<Rightarrow> store" where
  "step (Create uuid now body) s = fst (create uuid now body s)"
| "step GetAll s = s"
| "step (GetById k) s = s"
| "step (Update k now body) s = fst (update k now body s)"
| "step (Delete k) s = fst (delete k s)"
| "step (Buy k now) s = fst (buy k now s)"
| "step (Feature k now) s = fst (feature k now s)"
| "step (SearchByArtist q) s = s"
| "step (SearchByTitle q) s = s"

fun run :: "call list \<Rightarrow> store \<Rightarrow> store" where
  "run [] s = s"
| "run (c # cs) s = run cs (step c s)"


section \<open>Notions of the specification\<close>

text \<open>A create request that carries the four catalogue fields and nothing else.\<close>

definition plain_body :: "string \<Rightarrow> string \<Rightarrow> real \<Rightarrow> string \<Rightarrow> NewBody" where
  "plain_body t a p u =
     \<lparr> n_title = t, n_artist = a, n_price = p, n_url = u, n_id = None,
       n_createdAt = None, n_updatedAt = None, n_sold = None, n_featured = None \<rparr>"

text \<open>An update request that names no field, and one that names only the price.\<close>

definition no_fields :: Body where
  "no_fields =
     \<lparr> b_id = None, b_title = None, b_artist = None, b_price = None, b_url = None,
       b_createdAt = None, b_updatedAt = None, b_sold = None, b_featured = None \<rparr>"

definition only_price :: "real \<Rightarrow> Body" where
  "only_price p = no_fields\<lparr>b_price := Some p\<rparr>"





text \<open>Every record is stored under the id it carries.\<close>

definition keyed_by_id :: "store \<Rightarrow> bool" where
  "keyed_by_id s = (\<forall>k \<in> store_keys s. map_option id_field (store_get s k) = Some k)"

text \<open>
  The requests that respect the sale of a beat: a create that does not land on the id of
  a sold record (through a supplied id or a repeated uuid), and an update whose body
  neither sets \<^verbatim>\<open>sold\<close> to false nor names an id other than the one of the request.
\<close>

fun respects_sale :: "call \<Rightarrow> store \<Rightarrow> bool" where
  "respects_sale (Create uuid now body) s =
     (case store_get s (id_field (new_beat uuid now body)) of
        None \<Rightarrow> True
      | Some b \<Rightarrow> \<not> sold b)"
| "respects_sale (Update k now body) s =
     (b_sold body \<noteq> Some False \<and> (b_id body = None \<or> b_id body = Some k))"
| "respects_sale c s = True"

fun respects_sale_run :: "call list \<Rightarrow> store \<Rightarrow> bool" where
  "respects_sale_run [] s = True"
| "respects_sale_run (c # cs) s = (respects_sale c s \<and> respects_sale_run cs (step c s))"

text \<open>
  The history of a store: the keys whose record has been written by an update, a buy or
  a feature since a create last wrote it. A mutating request counts for the record it
  overwrites, which the handlers address by \<^verbatim>\<open>beat.id\<close>.
\<close>

fun mutated :: "call \<Rightarrow> store \<Rightarrow> string set \<Rightarrow> string set" where
  "mutated (Create uuid now body) s m = m - {id_field (new_beat uuid now body)}"
| "mutated (Update k now body) s m =
     (case store_get s k of None \<Rightarrow> m | Some b \<Rightarrow> insert (id_field b) m)"
| "mutated (Buy k now) s m =
     (case store_get s k of
        None \<Rightarrow> m
      | Some b \<Rightarrow> if sold b then m else insert (id_field b) m)"
| "mutated (Feature k now) s m =
     (case store_get s k of None \<Rightarrow> m | Some b \<Rightarrow> insert (id_field b) m)"
| "mutated (Delete k) s m = m - {k}"
| "mutated c s m = m"

fun mutated_run :: "call list \<Rightarrow> store \<Rightarrow> string set \<Rightarrow> string set" where
  "mutated_run [] s m = m"
| "mutated_run (c # cs) s m = mutated_run cs (step c s) (mutated c s m)"

section \<open>Sample data\<close>

definition night :: Beat where
  "night =
     \<lparr> id_field = ''a'', title = ''Night'', artist = ''Wave'', price = 9.99, url = ''u1'',
       createdAt = 5, updatedAt = None, sold = False, featured = False \<rparr>"

definition night_body :: NewBody where
  "night_body = plain_body ''Night'' ''Wave'' 9.99 ''u1''"

text \<open>A store after one create and one update that names another id.\<close>

definition forged :: store where
  "forged = run [Create ''a'' 5 night_body, Update ''a'' 6 (no_fields\<lparr>b_id := Some ''z''\<rparr>)] []"

section \<open>Facts about the store\<close>

lemma get_insert:
  "store_get (store_insert k v s) k' = (if k' = k then Some v else store_get s k')"
  by (induction s) auto

lemma get_remove:
  "store_get (store_remove k s) k' = (if k' = k then None else store_get s k')"
  by (induction s) auto

lemma remove_absent: "store_get s k = None \<Longrightarrow> store_remove k s = s"
  by (induction s) (auto split: if_splits)

lemma keys_get: "k \<in> store_keys s \<longleftrightarrow> store_get s k \<noteq> None"
  by (induction s) (auto simp: store_keys_def)

lemma keys_insert: "store_keys (store_insert k v s) = insert k (store_keys s)"
  by (auto simp: keys_get get_insert split: if_splits)

lemma keys_remove: "store_keys (store_remove k s) = store_keys s - {k}"
  by (auto simp: keys_get get_remove split: if_splits)


section \<open>Facts about letter case\<close>











section \<open>Delete\<close>

text \<open>
  C6. \<open>delete\<close> answers \<open>NotFound\<close> for an id that is not stored. For a stored id it removes
  the record, leaving every other key as it was, and returns the record; after that
  \<open>getById\<close> and a second \<open>delete\<close> of the same id both answer \<open>NotFound\<close>.
\<close>

theorem delete_contract:
  "(store_get s k = None \<longrightarrow> delete k s = (s, Inl NotFound)) \<and>
   (\<forall>b. store_get s k = Some b \<longrightarrow>
      delete k s = (store_remove k s, Inr b) \<and>
      store_get (store_remove k s) k = None \<and>
      (\<forall>k'. k' \<noteq> k \<longrightarrow> store_get (store_remove k s) k' = store_get s k') \<and>
      getById k (fst (delete k s)) = Inl NotFound \<and>
      delete k (fst (delete k s)) = (fst (delete k s), Inl NotFound))"
  by (simp add: delete_def getById_def beatFinder_def get_remove remove_absent)

theorem delete_contract_witness:
  "store_get [(''a'', night)] ''b'' = None \<and>
   delete ''b'' [(''a'', night)] = ([(''a'', night)], Inl NotFound) \<and>
   store_get [(''a'', night)] ''a'' = Some night \<and>
   delete ''a'' [(''a'', night)] = ([], Inr night) \<and>
   getById ''a'' (fst (delete ''a'' [(''a'', night)])) = Inl NotFound \<and>
   delete ''a'' (fst (delete ''a'' [(''a'', night)])) = ([], Inl NotFound)"
  using delete_contract [of "[(''a'', night)]" "''b''"]
    delete_contract [of "[(''a'', night)]" "''a''"]
  by (simp add: delete_def getById_def beatFinder_def)

section \<open>Failing requests\<close>

text \<open>
  C10. A request that is answered with an error returns the store it was given. \<open>update\<close>,
  \<open>delete\<close> and \<open>feature\<close> fail exactly on an id that is not stored, \<open>buy\<close> on such an id
  or on a record that is sold already. \<open>getById\<close> only reads the store.
\<close>

theorem errors_leave_store:
  "(snd (update k now body s) = Inl e \<longrightarrow>
      store_get s k = None \<and> e = NotFound \<and> fst (update k now body s) = s) \<and>
   (snd (delete k s) = Inl e \<longrightarrow>
      store_get s k = None \<and> e = NotFound \<and> fst (delete k s) = s) \<and>
   (snd (buy k now s) = Inl e \<longrightarrow>
      (store_get s k = None \<and> e = NotFound \<or>
       (\<exists>b. store_get s k = Some b \<and> sold b) \<and> e = AlreadySold) \<and>
      fst (buy k now s) = s) \<and>
   (snd (feature k now s) = Inl e \<longrightarrow>
      store_get s k = None \<and> e = NotFound \<and> fst (feature k now s) = s) \<and>
   (store_get s k = None \<longrightarrow>
      getById k s = Inl NotFound \<and> update k now body s = (s, Inl NotFound) \<and>
      delete k s = (s, Inl NotFound) \<and> buy k now s = (s, Inl NotFound) \<and>
      feature k now s = (s, Inl NotFound)) \<and>
   (\<forall>b. store_get s k = Some b \<and> sold b \<longrightarrow> buy k now s = (s, Inl AlreadySold))"
  by (auto simp: update_def delete_def buy_def feature_def getById_def beatFinder_def
      Let_def remove_absent split: option.splits if_splits)

theorem errors_leave_store_witness:
  "store_get [(''a'', night\<lparr>sold := True\<rparr>)] ''b'' = None \<and>
   getById ''b'' [(''a'', night\<lparr>sold := True\<rparr>)] = Inl NotFound \<and>
   update ''b'' 7 (only_price 3) [(''a'', night\<lparr>sold := True\<rparr>)]
     = ([(''a'', night\<lparr>sold := True\<rparr>)], Inl NotFound) \<and>
   delete ''b'' [(''a'', night\<lparr>sold := True\<rparr>)]
     = ([(''a'', night\<lparr>sold := True\<rparr>)], Inl NotFound) \<and>
   feature ''b'' 7 [(''a'', night\<lparr>sold := True\<rparr>)]
     = ([(''a'', night\<lparr>sold := True\<rparr>)], Inl NotFound) \<and>
   buy ''b'' 7 [(''a'', night\<lparr>sold := True\<rparr>)]
     = ([(''a'', night\<lparr>sold := True\<rparr>)], Inl NotFound) \<and>
   store_get [(''a'', night\<lparr>sold := True\<rparr>)] ''a'' = Some (night\<lparr>sold := True\<rparr>) \<and>
   sold (night\<lparr>sold := True\<rparr>) \<and>
   buy ''a'' 7 [(''a'', night\<lparr>sold := True\<rparr>)]
     = ([(''a'', night\<lparr>sold := True\<rparr>)], Inl AlreadySold)"
  using errors_leave_store [of "''b''" 7 "only_price 3" "[(''a'', night\<lparr>sold := True\<rparr>)]"]
    errors_leave_store [of "''a''" 7 "only_price 3" "[(''a'', night\<lparr>sold := True\<rparr>)]"]
  by simp

section \<open>Feature\<close>

text \<open>
  C8, as the code has it. \<open>feature\<close> answers \<open>NotFound\<close> for an id that is not stored.
  Otherwise it returns the stored record with \<open>featured\<close> set and \<open>updatedAt\<close> set to the
  current time, and stores it under the id the record carries. When that is the id of
  the request, \<open>getById\<close> returns the featured record from then on; when it is another
  id, the record under the requested id stays as it was. On a record that is featured
  already the result differs from the stored record in \<open>updatedAt\<close> only, and a second
  call returns what the first returned with a new \<open>updatedAt\<close>.
\<close>

theorem feature_contract:
  "(store_get s k = None \<longrightarrow> feature k now s = (s, Inl NotFound)) \<and>
   (\<forall>b. store_get s k = Some b \<longrightarrow>
      feature k now s =
        (store_insert (id_field b) (b\<lparr>featured := True, updatedAt := Some now\<rparr>) s,
         Inr (b\<lparr>featured := True, updatedAt := Some now\<rparr>)) \<and>
      store_get (fst (feature k now s)) (id_field b) =
        Some (b\<lparr>featured := True, updatedAt := Some now\<rparr>) \<and>
      (id_field b = k \<longrightarrow>
         getById k (fst (feature k now s)) =
           Inr (b\<lparr>featured := True, updatedAt := Some now\<rparr>)) \<and>
      (id_field b \<noteq> k \<longrightarrow> getById k (fst (feature k now s)) = Inr b) \<and>
      (\<forall>k'. k' \<noteq> id_field b \<longrightarrow> store_get (fst (feature k now s)) k' = store_get s k') \<and>
      (featured b \<longrightarrow> snd (feature k now s) = Inr (b\<lparr>updatedAt := Some now\<rparr>)) \<and>
      (\<forall>now'. snd (feature k now' (fst (feature k now s))) =
         Inr (b\<lparr>featured := True, updatedAt := Some now'\<rparr>)))"
  by (auto simp: feature_def beatFinder_def getById_def Let_def get_insert)

theorem feature_contract_witness:
  "store_get [(''a'', night)] ''b'' = None \<and>
   feature ''b'' 7 [(''a'', night)] = ([(''a'', night)], Inl NotFound) \<and>
   store_get [(''a'', night)] ''a'' = Some night \<and> id_field night = ''a'' \<and>
   feature ''a'' 7 [(''a'', night)] =
     ([(''a'', night\<lparr>featured := True, updatedAt := Some 7\<rparr>)],
      Inr (night\<lparr>featured := True, updatedAt := Some 7\<rparr>)) \<and>
   getById ''a'' (fst (feature ''a'' 7 [(''a'', night)])) =
     Inr (night\<lparr>featured := True, updatedAt := Some 7\<rparr>) \<and>
   snd (feature ''a'' 8 (fst (feature ''a'' 7 [(''a'', night)]))) =
     Inr (night\<lparr>featured := True, updatedAt := Some 8\<rparr>) \<and>
   store_get forged ''a'' = Some (night\<lparr>id_field := ''z'', updatedAt := Some 6\<rparr>) \<and>
   id_field (night\<lparr>id_field := ''z'', updatedAt := Some 6\<rparr>) \<noteq> ''a'' \<and>
   getById ''a'' (fst (feature ''a'' 7 forged)) =
     Inr (night\<lparr>id_field := ''z'', updatedAt := Some 6\<rparr>)"
  using feature_contract [of "[(''a'', night)]" "''b''" 7]
    feature_contract [of "[(''a'', night)]" "''a''" 7]
    feature_contract [of forged "''a''" 7]
  by (simp add: night_def feature_def beatFinder_def getById_def Let_def forged_def
      night_body_def plain_body_def no_fields_def create_def new_beat_def update_def merge_def)

text \<open>
  C8 as stated fails on a store where a record carries another id than its key, as after
  an update that named an id: the feature succeeds and answers a featured record, the
  featured copy goes under the other id, and the record under the requested id is not
  featured.
\<close>

theorem feature_contract_counterexample:
  "forged = [(''a'', night\<lparr>id_field := ''z'', updatedAt := Some 6\<rparr>)] \<and>
   snd (feature ''a'' 7 forged) =
     Inr (night\<lparr>id_field := ''z'', featured := True, updatedAt := Some 7\<rparr>) \<and>
   getById ''a'' (fst (feature ''a'' 7 forged)) =
     Inr (night\<lparr>id_field := ''z'', featured := False, updatedAt := Some 6\<rparr>) \<and>
   getById ''z'' (fst (feature ''a'' 7 forged)) =
     Inr (night\<lparr>id_field := ''z'', featured := True, updatedAt := Some 7\<rparr>)"
  by (simp add: forged_def night_def night_body_def plain_body_def no_fields_def create_def
      new_beat_def update_def merge_def feature_def getById_def beatFinder_def Let_def)

section \<open>Update\<close>

text \<open>
  C3, as the code has it. \<open>update\<close> answers \<open>NotFound\<close> for an id that is not stored.
  Otherwise it returns the merged record and stores it under the id the found record
  carries. When that is the id of the request, \<open>getById\<close> returns the merged record from
  then on; when it is another id, the record under the requested id stays as it was. In
  the merged record every field the body names has the body's value, also \<open>id\<close>,
  \<open>createdAt\<close>, \<open>sold\<close> and \<open>featured\<close>; every field the body leaves out has the stored
  value; and \<open>updatedAt\<close> is the current time whatever the body says. A body that names
  only the price changes the price and \<open>updatedAt\<close> and nothing else.
\<close>

theorem update_contract:
  "(store_get s k = None \<longrightarrow> update k now body s = (s, Inl NotFound)) \<and>
   (\<forall>b. store_get s k = Some b \<longrightarrow>
      update k now body s = (store_insert (id_field b) (merge b body now) s,
                             Inr (merge b body now)) \<and>
      store_get (fst (update k now body s)) (id_field b) = Some (merge b body now) \<and>
      (id_field b = k \<longrightarrow> getById k (fst (update k now body s)) = Inr (merge b body now)) \<and>
      (id_field b \<noteq> k \<longrightarrow> getById k (fst (update k now body s)) = Inr b) \<and>
      (\<forall>k'. k' \<noteq> id_field b \<longrightarrow> store_get (fst (update k now body s)) k' = store_get s k') \<and>
      id_field (merge b body now) = (case b_id body of None \<Rightarrow> id_field b | Some x \<Rightarrow> x) \<and>
      title (merge b body now) = (case b_title body of None \<Rightarrow> title b | Some x \<Rightarrow> x) \<and>
      artist (merge b body now) = (case b_artist body of None \<Rightarrow> artist b | Some x \<Rightarrow> x) \<and>
      price (merge b body now) = (case b_price body of None \<Rightarrow> price b | Some x \<Rightarrow> x) \<and>
      url (merge b body now) = (case b_url body of None \<Rightarrow> url b | Some x \<Rightarrow> x) \<and>
      createdAt (merge b body now) =
        (case b_createdAt body of None \<Rightarrow> createdAt b | Some x \<Rightarrow> x) \<and>
      sold (merge b body now) = (case b_sold body of None \<Rightarrow> sold b | Some x \<Rightarrow> x) \<and>
      featured (merge b body now) =
        (case b_featured body of None \<Rightarrow> featured b | Some x \<Rightarrow> x) \<and>
      updatedAt (merge b body now) = Some now \<and>
      (\<forall>p. body = only_price p \<longrightarrow>
         merge b body now = b\<lparr>price := p, updatedAt := Some now\<rparr> \<and>
         title (merge b body now) = title b \<and>
         artist (merge b body now) = artist b \<and>
         url (merge b body now) = url b \<and>
         price (merge b body now) = p))"
  by (auto simp: update_def beatFinder_def getById_def Let_def get_insert merge_def
      only_price_def no_fields_def split: option.splits)

theorem update_contract_witness:
  "store_get [(''a'', night)] ''b'' = None \<and>
   update ''b'' 7 (only_price 3) [(''a'', night)] = ([(''a'', night)], Inl NotFound) \<and>
   store_get [(''a'', night)] ''a'' = Some night \<and> id_field night = ''a'' \<and>
   update ''a'' 7 (only_price 3) [(''a'', night)] =
     ([(''a'', night\<lparr>price := 3, updatedAt := Some 7\<rparr>)],
      Inr (night\<lparr>price := 3, updatedAt := Some 7\<rparr>)) \<and>
   getById ''a'' (fst (update ''a'' 7 (only_price 3) [(''a'', night)])) =
     Inr (night\<lparr>price := 3, updatedAt := Some 7\<rparr>) \<and>
   title (merge night (only_price 3) 7) = ''Night'' \<and>
   artist (merge night (only_price 3) 7) = ''Wave'' \<and>
   url (merge night (only_price 3) 7) = ''u1'' \<and>
   price (merge night (only_price 3) 7) = 3 \<and>
   updatedAt (merge night (only_price 3) 7) = Some 7 \<and>
   store_get forged ''a'' = Some (night\<lparr>id_field := ''z'', updatedAt := Some 6\<rparr>) \<and>
   id_field (night\<lparr>id_field := ''z'', updatedAt := Some 6\<rparr>) \<noteq> ''a'' \<and>
   getById ''a'' (fst (update ''a'' 7 (only_price 3) forged)) =
     Inr (night\<lparr>id_field := ''z'', updatedAt := Some 6\<rparr>)"
  using update_contract [of "[(''a'', night)]" "''b''" 7 "only_price 3"]
    update_contract [of "[(''a'', night)]" "''a''" 7 "only_price 3"]
    update_contract [of forged "''a''" 7 "only_price 3"]
  by (simp add: night_def update_def beatFinder_def getById_def Let_def forged_def
      night_body_def plain_body_def no_fields_def only_price_def create_def new_beat_def
      merge_def)

text \<open>
  C3 as stated fails on a store where a record carries another id than its key: the
  update answers the record with the new price, the merged record goes under the other
  id, and the record under the requested id keeps the old price.
\<close>

theorem update_contract_counterexample:
  "forged = [(''a'', night\<lparr>id_field := ''z'', updatedAt := Some 6\<rparr>)] \<and>
   snd (update ''a'' 7 (only_price 3) forged) =
     Inr (night\<lparr>id_field := ''z'', price := 3, updatedAt := Some 7\<rparr>) \<and>
   getById ''a'' (fst (update ''a'' 7 (only_price 3) forged)) =
     Inr (night\<lparr>id_field := ''z'', price := 9.99, updatedAt := Some 6\<rparr>) \<and>
   getById ''z'' (fst (update ''a'' 7 (only_price 3) forged)) =
     Inr (night\<lparr>id_field := ''z'', price := 3, updatedAt := Some 7\<rparr>)"
  by (simp add: forged_def night_def night_body_def plain_body_def no_fields_def only_price_def
      create_def new_beat_def update_def merge_def getById_def beatFinder_def Let_def)

section \<open>Create\<close>






section \<open>Search\<close>




section \<open>The key of an updated record\<close>

text \<open>
  C9, as the code has it. A failing update leaves the store as it is. An update of a
  record that is stored under the id it carries leaves the set of keys as it is and
  stores the merged record under that key, whatever the body names; every other key keeps
  its record. When the body names another id, the stored record no longer carries its
  key, and \<open>getById\<close> with the named id answers what it answered before the update:
  \<open>NotFound\<close> when no record was stored under the named id.
\<close>

theorem update_keeps_keys:
  "(store_get s k = None \<longrightarrow> fst (update k now body s) = s) \<and>
   (\<forall>b. store_get s k = Some b \<and> id_field b = k \<longrightarrow>
      store_keys (fst (update k now body s)) = store_keys s \<and>
      store_get (fst (update k now body s)) k = Some (merge b body now) \<and>
      (\<forall>k'. k' \<noteq> k \<longrightarrow> store_get (fst (update k now body s)) k' = store_get s k') \<and>
      (\<forall>f. b_id body = Some f \<and> f \<noteq> k \<longrightarrow>
         id_field (merge b body now) = f \<and>
         getById f (fst (update k now body s)) = getById f s \<and>
         (store_get s f = None \<longrightarrow> getById f (fst (update k now body s)) = Inl NotFound)))"
  by (auto simp: update_def beatFinder_def Let_def get_insert keys_insert keys_get
      getById_def merge_def)

theorem update_keeps_keys_witness:
  "store_get [(''a'', night)] ''b'' = None \<and>
   fst (update ''b'' 6 (no_fields\<lparr>b_id := Some ''z''\<rparr>) [(''a'', night)]) = [(''a'', night)] \<and>
   store_get [(''a'', night)] ''a'' = Some night \<and> id_field night = ''a'' \<and>
   store_keys (fst (update ''a'' 6 (no_fields\<lparr>b_id := Some ''z''\<rparr>) [(''a'', night)])) = {''a''} \<and>
   store_get (fst (update ''a'' 6 (no_fields\<lparr>b_id := Some ''z''\<rparr>) [(''a'', night)])) ''a'' =
     Some (night\<lparr>id_field := ''z'', updatedAt := Some 6\<rparr>) \<and>
   b_id (no_fields\<lparr>b_id := Some ''z''\<rparr>) = Some ''z'' \<and> ''z'' \<noteq> ''a'' \<and>
   store_get [(''a'', night)] ''z'' = None \<and>
   getById ''z'' (fst (update ''a'' 6 (no_fields\<lparr>b_id := Some ''z''\<rparr>) [(''a'', night)])) =
     Inl NotFound"
  using update_keeps_keys [of "[(''a'', night)]" "''b''" 6 "no_fields\<lparr>b_id := Some ''z''\<rparr>"]
    update_keeps_keys [of "[(''a'', night)]" "''a''" 6 "no_fields\<lparr>b_id := Some ''z''\<rparr>"]
  by (simp add: night_def no_fields_def store_keys_def merge_def update_def getById_def
      beatFinder_def Let_def)

text \<open>
  C9 as stated fails twice. In the store \<open>forged\<close> the record under \<open>a\<close> carries the id
  \<open>z\<close>; an update of \<open>a\<close> that names no field writes under \<open>z\<close> and adds a key. And an
  update that names the id of another stored record leaves that record to be found.
\<close>

theorem update_keeps_keys_counterexample:
  "store_keys forged = {''a''} \<and>
   snd (update ''a'' 7 no_fields forged) = Inr (night\<lparr>id_field := ''z'', updatedAt := Some 7\<rparr>) \<and>
   store_keys (fst (update ''a'' 7 no_fields forged)) = {''a'', ''z''} \<and>
   store_get (fst (update ''a'' 7 no_fields forged)) ''a'' =
     Some (night\<lparr>id_field := ''z'', updatedAt := Some 6\<rparr>) \<and>
   getById ''b''
     (fst (update ''a'' 7 (no_fields\<lparr>b_id := Some ''b''\<rparr>)
        [(''a'', night), (''b'', night\<lparr>id_field := ''b''\<rparr>)])) =
     Inr (night\<lparr>id_field := ''b''\<rparr>)"
  by (simp add: forged_def night_def night_body_def plain_body_def no_fields_def create_def
      new_beat_def update_def merge_def getById_def beatFinder_def store_keys_def Let_def
      insert_commute)

section \<open>The sale of a beat is final\<close>

lemma keyed_by_id_iff:
  "keyed_by_id s \<longleftrightarrow> (\<forall>k b. store_get s k = Some b \<longrightarrow> id_field b = k)"
proof
  assume keyed: "keyed_by_id s"
  show "\<forall>k b. store_get s k = Some b \<longrightarrow> id_field b = k"
  proof (intro allI impI)
    fix k b
    assume got: "store_get s k = Some b"
    then have "k \<in> store_keys s"
      by (simp add: keys_get)
    with keyed have "map_option id_field (store_get s k) = Some k"
      by (simp add: keyed_by_id_def)
    with got show "id_field b = k"
      by simp
  qed
next
  assume "\<forall>k b. store_get s k = Some b \<longrightarrow> id_field b = k"
  then show "keyed_by_id s"
    by (auto simp: keyed_by_id_def keys_get)
qed

lemma step_keeps_keyed:
  assumes "keyed_by_id s" and "respects_sale c s"
  shows "keyed_by_id (step c s)"
proof (cases c)
  case (Create uuid now body)
  with assms show ?thesis
    by (auto simp: keyed_by_id_iff create_def Let_def get_insert split: if_splits)
next
  case (Update k now body)
  with assms show ?thesis
    by (auto simp: keyed_by_id_iff update_def beatFinder_def Let_def get_insert merge_def
        split: option.splits if_splits)
next
  case (Delete k)
  with assms show ?thesis
    by (auto simp: keyed_by_id_iff delete_def get_remove split: option.splits if_splits)
next
  case (Buy k now)
  with assms show ?thesis
    by (auto simp: keyed_by_id_iff buy_def beatFinder_def Let_def get_insert
        split: option.splits if_splits)
next
  case (Feature k now)
  with assms show ?thesis
    by (auto simp: keyed_by_id_iff feature_def beatFinder_def Let_def get_insert
        split: option.splits if_splits)
qed (use assms in simp_all)

lemma step_keeps_sold:
  assumes "keyed_by_id s" and "respects_sale c s"
    and "store_get s k = Some b" and "sold b" and "c \<noteq> Delete k"
  shows "\<exists>b'. store_get (step c s) k = Some b' \<and> sold b'"
proof (cases c)
  case (Create uuid now body)
  with assms show ?thesis
    by (auto simp: create_def Let_def get_insert split: if_splits)
next
  case (Update k0 now body)
  with assms show ?thesis
    by (cases "b_sold body")
      (auto simp: keyed_by_id_iff update_def beatFinder_def Let_def get_insert merge_def
        split: option.splits if_splits)
next
  case (Delete k0)
  with assms show ?thesis
    by (auto simp: delete_def get_remove split: option.splits if_splits)
next
  case (Buy k0 now)
  with assms show ?thesis
    by (auto simp: keyed_by_id_iff buy_def beatFinder_def Let_def get_insert
        split: option.splits if_splits)
next
  case (Feature k0 now)
  with assms show ?thesis
    by (auto simp: keyed_by_id_iff feature_def beatFinder_def Let_def get_insert
        split: option.splits if_splits)
qed (use assms in simp_all)

lemma run_keeps_keyed:
  "keyed_by_id s \<Longrightarrow> respects_sale_run cs s \<Longrightarrow> keyed_by_id (run cs s)"
  by (induction cs arbitrary: s) (auto intro: step_keeps_keyed)

lemma run_keeps_sold:
  "keyed_by_id s \<Longrightarrow> respects_sale_run cs s \<Longrightarrow> Delete k \<notin> set cs \<Longrightarrow>
   store_get s k = Some b \<Longrightarrow> sold b \<Longrightarrow>
   \<exists>b'. store_get (run cs s) k = Some b' \<and> sold b'"
proof (induction cs arbitrary: s b)
  case Nil
  then show ?case by simp
next
  case (Cons c cs)
  from Cons.prems have c: "respects_sale c s" "c \<noteq> Delete k"
    and cs: "respects_sale_run cs (step c s)" "Delete k \<notin> set cs"
    by auto
  from step_keeps_sold [OF Cons.prems(1) c(1) Cons.prems(4) Cons.prems(5) c(2)]
  obtain b1 where b1: "store_get (step c s) k = Some b1" "sold b1"
    by blast
  have "keyed_by_id (step c s)"
    using Cons.prems(1) c(1) by (rule step_keeps_keyed)
  from Cons.IH [OF this cs b1] show ?case
    by simp
qed

text \<open>
  C1, as the code has it. Take a store in which every record is stored under the id it
  carries, as is every store reached from the empty one by requests that respect the
  sale: creates that do not land on the id of a sold record, and updates that neither set
  \<open>sold\<close> to false nor name another id. Then such a request leaves a sold record sold,
  unless it is the delete of that record, and after any run of such requests that does
  not delete the record it is still stored and sold. This holds in particular for the
  record a successful buy has stored.
\<close>

theorem sold_is_final:
  "(keyed_by_id s \<and> respects_sale c s \<and> store_get s k = Some b \<and> sold b \<and> c \<noteq> Delete k \<longrightarrow>
      (\<exists>b'. store_get (step c s) k = Some b' \<and> sold b')) \<and>
   (keyed_by_id s \<and> respects_sale_run cs s \<and> Delete k \<notin> set cs \<and>
    store_get s k = Some b \<and> sold b \<longrightarrow>
      (\<exists>b'. store_get (run cs s) k = Some b' \<and> sold b')) \<and>
   (keyed_by_id s \<and> snd (buy k now s) = Inr b \<and>
    respects_sale_run cs (fst (buy k now s)) \<and> Delete k \<notin> set cs \<longrightarrow>
      (\<exists>b'. store_get (run cs (fst (buy k now s))) k = Some b' \<and> sold b')) \<and>
   (respects_sale_run cs [] \<longrightarrow> keyed_by_id (run cs []))"
proof (intro conjI impI)
  assume "keyed_by_id s \<and> respects_sale c s \<and> store_get s k = Some b \<and> sold b \<and> c \<noteq> Delete k"
  then show "\<exists>b'. store_get (step c s) k = Some b' \<and> sold b'"
    using step_keeps_sold by blast
next
  assume "keyed_by_id s \<and> respects_sale_run cs s \<and> Delete k \<notin> set cs \<and>
    store_get s k = Some b \<and> sold b"
  then show "\<exists>b'. store_get (run cs s) k = Some b' \<and> sold b'"
    using run_keeps_sold by blast
next
  assume a: "keyed_by_id s \<and> snd (buy k now s) = Inr b \<and>
    respects_sale_run cs (fst (buy k now s)) \<and> Delete k \<notin> set cs"
  then have keyed: "keyed_by_id (step (Buy k now) s)"
    by (intro step_keeps_keyed) simp_all
  from a have "store_get (fst (buy k now s)) k = Some b \<and> sold b"
    by (auto simp: keyed_by_id_iff buy_def beatFinder_def Let_def get_insert
        split: option.splits if_splits)
  with a keyed show "\<exists>b'. store_get (run cs (fst (buy k now s))) k = Some b' \<and> sold b'"
    using run_keeps_sold [of "fst (buy k now s)" cs k b] by simp
next
  assume "respects_sale_run cs []"
  then show "keyed_by_id (run cs [])"
    by (intro run_keeps_keyed) (simp_all add: keyed_by_id_def store_keys_def)
qed

theorem sold_is_final_witness:
  "keyed_by_id [(''a'', night\<lparr>sold := True\<rparr>)] \<and>
   respects_sale (Update ''a'' 8 (only_price 3)) [(''a'', night\<lparr>sold := True\<rparr>)] \<and>
   store_get [(''a'', night\<lparr>sold := True\<rparr>)] ''a'' = Some (night\<lparr>sold := True\<rparr>) \<and>
   sold (night\<lparr>sold := True\<rparr>) \<and>
   Update ''a'' 8 (only_price 3) \<noteq> Delete ''a'' \<and>
   store_get (step (Update ''a'' 8 (only_price 3)) [(''a'', night\<lparr>sold := True\<rparr>)]) ''a'' =
     Some (night\<lparr>price := 3, sold := True, updatedAt := Some 8\<rparr>) \<and>
   respects_sale_run
     [Update ''a'' 8 (only_price 3), Feature ''a'' 9, Create ''b'' 10 night_body, Buy ''a'' 11]
     [(''a'', night\<lparr>sold := True\<rparr>)] \<and>
   Delete ''a'' \<notin> set
     [Update ''a'' 8 (only_price 3), Feature ''a'' 9, Create ''b'' 10 night_body, Buy ''a'' 11] \<and>
   store_get (run
     [Update ''a'' 8 (only_price 3), Feature ''a'' 9, Create ''b'' 10 night_body, Buy ''a'' 11]
     [(''a'', night\<lparr>sold := True\<rparr>)]) ''a'' =
     Some (night\<lparr>price := 3, sold := True, featured := True, updatedAt := Some 9\<rparr>) \<and>
   keyed_by_id [(''a'', night)] \<and>
   snd (buy ''a'' 7 [(''a'', night)]) = Inr (night\<lparr>sold := True, updatedAt := Some 7\<rparr>) \<and>
   respects_sale_run [Update ''a'' 8 (only_price 3), Feature ''a'' 9]
     (fst (buy ''a'' 7 [(''a'', night)])) \<and>
   store_get (run [Update ''a'' 8 (only_price 3), Feature ''a'' 9]
     (fst (buy ''a'' 7 [(''a'', night)]))) ''a'' =
     Some (night\<lparr>price := 3, sold := True, featured := True, updatedAt := Some 9\<rparr>) \<and>
   respects_sale_run [Create ''a'' 5 night_body, Buy ''a'' 6, Create ''b'' 7 night_body] [] \<and>
   keyed_by_id (run [Create ''a'' 5 night_body, Buy ''a'' 6, Create ''b'' 7 night_body] [])"
  using sold_is_final [of "[(''a'', night\<lparr>sold := True\<rparr>)]" "Update ''a'' 8 (only_price 3)"
      "''a''" "night\<lparr>sold := True\<rparr>"
      "[Update ''a'' 8 (only_price 3), Feature ''a'' 9, Create ''b'' 10 night_body, Buy ''a'' 11]" 7]
    sold_is_final [of "[(''a'', night)]" GetAll "''a''" "night\<lparr>sold := True, updatedAt := Some 7\<rparr>"
      "[Update ''a'' 8 (only_price 3), Feature ''a'' 9]" 7]
    sold_is_final [of "[]" GetAll "''a''" night
      "[Create ''a'' 5 night_body, Buy ''a'' 6, Create ''b'' 7 night_body]" 7]
  by (simp add: night_def night_body_def plain_body_def only_price_def no_fields_def
      keyed_by_id_def store_keys_def create_def new_beat_def update_def merge_def buy_def
      feature_def beatFinder_def Let_def)

text \<open>
  C1 as stated fails. An update whose body sets \<open>sold\<close> to false reverts a sale. So does a
  create that names the id of a sold record, and a feature of a record that carries the
  id of a sold record, which an update left behind.
\<close>

theorem sold_is_final_counterexample:
  "snd (buy ''a'' 6 (fst (create ''a'' 5 night_body []))) =
     Inr (night\<lparr>sold := True, updatedAt := Some 6\<rparr>) \<and>
   store_get (run [Create ''a'' 5 night_body, Buy ''a'' 6] []) ''a'' =
     Some (night\<lparr>sold := True, updatedAt := Some 6\<rparr>) \<and>
   store_get (run [Create ''a'' 5 night_body, Buy ''a'' 6,
       Update ''a'' 7 (no_fields\<lparr>b_sold := Some False\<rparr>)] []) ''a'' =
     Some (night\<lparr>sold := False, updatedAt := Some 7\<rparr>) \<and>
   store_get (run [Create ''a'' 5 night_body, Buy ''a'' 6,
       Create ''c'' 7 (night_body\<lparr>n_id := Some ''a''\<rparr>)] []) ''a'' =
     Some (night\<lparr>createdAt := 7\<rparr>) \<and>
   store_get (run [Create ''a'' 5 night_body, Buy ''a'' 6, Create ''b'' 7 night_body,
       Update ''b'' 8 (no_fields\<lparr>b_id := Some ''a''\<rparr>), Feature ''b'' 9] []) ''a'' =
     Some (night\<lparr>createdAt := 7, featured := True, updatedAt := Some 9\<rparr>)"
  by (simp add: night_def night_body_def plain_body_def no_fields_def create_def new_beat_def
      update_def merge_def buy_def feature_def beatFinder_def Let_def)

section \<open>Buy\<close>

lemma run_buys_sold:
  "store_get s k = Some b \<Longrightarrow> sold b \<Longrightarrow> run (map (Buy k) nows) s = s"
  by (induction nows) (auto simp: buy_def beatFinder_def)

lemma buy_sold:
  "store_get s k = Some b \<Longrightarrow> sold b \<Longrightarrow> buy k now s = (s, Inl AlreadySold)"
  by (simp add: buy_def beatFinder_def)

text \<open>
  C2, as the code has it. \<open>buy\<close> answers \<open>NotFound\<close> for an id that is not stored and
  \<open>AlreadySold\<close>, with the store untouched, for a record that is sold. Otherwise it
  returns the record with \<open>sold\<close> set and \<open>updatedAt\<close> the current time and stores it under
  the id the record carries. When that id is the id of the request, every buy of the id
  that follows directly answers \<open>AlreadySold\<close> and leaves the store as it is. When
  moreover every record of the store is stored under the id it carries, the same holds
  after any run of requests that respect the sale and do not delete the id: the record
  is still sold and a buy of the id answers \<open>AlreadySold\<close>.
\<close>

theorem buy_contract:
  "(store_get s k = None \<longrightarrow> buy k now s = (s, Inl NotFound)) \<and>
   (\<forall>b. store_get s k = Some b \<longrightarrow>
      (sold b \<longrightarrow> buy k now s = (s, Inl AlreadySold)) \<and>
      (\<not> sold b \<longrightarrow>
         buy k now s =
           (store_insert (id_field b) (b\<lparr>sold := True, updatedAt := Some now\<rparr>) s,
            Inr (b\<lparr>sold := True, updatedAt := Some now\<rparr>)) \<and>
         store_get (fst (buy k now s)) (id_field b) =
           Some (b\<lparr>sold := True, updatedAt := Some now\<rparr>) \<and>
         (id_field b = k \<longrightarrow>
            (\<forall>now'. buy k now' (fst (buy k now s)) = (fst (buy k now s), Inl AlreadySold)) \<and>
            (\<forall>nows. run (map (Buy k) nows) (fst (buy k now s)) = fst (buy k now s)) \<and>
            map_option sold (store_get (fst (buy k now s)) k) = Some True) \<and>
         (keyed_by_id s \<longrightarrow>
            (\<forall>cs now'. respects_sale_run cs (fst (buy k now s)) \<and> Delete k \<notin> set cs \<longrightarrow>
               buy k now' (run cs (fst (buy k now s))) =
                 (run cs (fst (buy k now s)), Inl AlreadySold) \<and>
               (\<exists>b'. store_get (run cs (fst (buy k now s))) k = Some b' \<and> sold b')))))"
proof -
  have direct: "run (map (Buy k) nows) (fst (buy k now s)) = fst (buy k now s)"
    if "store_get s k = Some b" "\<not> sold b" "id_field b = k" for b nows
  proof -
    have "store_get (fst (buy k now s)) k = Some (b\<lparr>sold := True, updatedAt := Some now\<rparr>)"
      using that by (simp add: buy_def beatFinder_def Let_def get_insert)
    then show ?thesis
      by (rule run_buys_sold) simp
  qed
  have later: "buy k now' (run cs (fst (buy k now s))) =
        (run cs (fst (buy k now s)), Inl AlreadySold) \<and>
      (\<exists>b'. store_get (run cs (fst (buy k now s))) k = Some b' \<and> sold b')"
    if got: "store_get s k = Some b" and unsold: "\<not> sold b" and keyed: "keyed_by_id s"
      and cs: "respects_sale_run cs (fst (buy k now s))" "Delete k \<notin> set cs"
    for b cs now'
  proof -
    have idk: "id_field b = k"
      using keyed got by (simp add: keyed_by_id_iff)
    have stored: "store_get (fst (buy k now s)) k = Some (b\<lparr>sold := True, updatedAt := Some now\<rparr>)"
      using got unsold idk by (simp add: buy_def beatFinder_def Let_def get_insert)
    have "keyed_by_id (step (Buy k now) s)"
      using keyed by (rule step_keeps_keyed) simp
    then have "keyed_by_id (fst (buy k now s))"
      by simp
    from run_keeps_sold [OF this cs stored]
    obtain b' where b': "store_get (run cs (fst (buy k now s))) k = Some b'" "sold b'"
      by auto
    then show ?thesis
      by (simp add: buy_sold)
  qed
  show ?thesis
  proof (intro conjI allI impI)
    fix b cs now'
    assume "store_get s k = Some b" "\<not> sold b" "keyed_by_id s"
      "respects_sale_run cs (fst (buy k now s)) \<and> Delete k \<notin> set cs"
    then show "buy k now' (run cs (fst (buy k now s))) =
        (run cs (fst (buy k now s)), Inl AlreadySold)"
      and "\<exists>b'. store_get (run cs (fst (buy k now s))) k = Some b' \<and> sold b'"
      using later [of b cs now'] by auto
  next
    fix b nows
    assume "store_get s k = Some b" "\<not> sold b" "id_field b = k"
    then show "run (map (Buy k) nows) (fst (buy k now s)) = fst (buy k now s)"
      by (rule direct)
  qed (auto simp: buy_def beatFinder_def Let_def get_insert)
qed

theorem buy_contract_witness:
  "store_get [(''a'', night)] ''b'' = None \<and>
   buy ''b'' 7 [(''a'', night)] = ([(''a'', night)], Inl NotFound) \<and>
   store_get [(''a'', night)] ''a'' = Some night \<and> \<not> sold night \<and> id_field night = ''a'' \<and>
   buy ''a'' 7 [(''a'', night)] =
     ([(''a'', night\<lparr>sold := True, updatedAt := Some 7\<rparr>)],
      Inr (night\<lparr>sold := True, updatedAt := Some 7\<rparr>)) \<and>
   buy ''a'' 8 (fst (buy ''a'' 7 [(''a'', night)])) =
     ([(''a'', night\<lparr>sold := True, updatedAt := Some 7\<rparr>)], Inl AlreadySold) \<and>
   sold (night\<lparr>sold := True, updatedAt := Some 7\<rparr>) \<and>
   buy ''a'' 9 [(''a'', night\<lparr>sold := True, updatedAt := Some 7\<rparr>)] =
     ([(''a'', night\<lparr>sold := True, updatedAt := Some 7\<rparr>)], Inl AlreadySold) \<and>
   keyed_by_id [(''a'', night)] \<and>
   respects_sale_run [Update ''a'' 8 (only_price 3), Create ''b'' 9 night_body, Feature ''a'' 10]
     (fst (buy ''a'' 7 [(''a'', night)])) \<and>
   Delete ''a'' \<notin> set [Update ''a'' 8 (only_price 3), Create ''b'' 9 night_body, Feature ''a'' 10] \<and>
   snd (buy ''a'' 11
     (run [Update ''a'' 8 (only_price 3), Create ''b'' 9 night_body, Feature ''a'' 10]
        (fst (buy ''a'' 7 [(''a'', night)])))) = Inl AlreadySold \<and>
   store_get
     (run [Update ''a'' 8 (only_price 3), Create ''b'' 9 night_body, Feature ''a'' 10]
        (fst (buy ''a'' 7 [(''a'', night)]))) ''a'' =
     Some (night\<lparr>price := 3, sold := True, featured := True, updatedAt := Some 10\<rparr>)"
  using buy_contract [of "[(''a'', night)]" "''b''" 7]
    buy_contract [of "[(''a'', night)]" "''a''" 7]
    buy_contract [of "[(''a'', night\<lparr>sold := True, updatedAt := Some 7\<rparr>)]" "''a''" 9]
  by (simp add: night_def night_body_def plain_body_def only_price_def no_fields_def
      keyed_by_id_def store_keys_def create_def new_beat_def update_def merge_def buy_def
      feature_def beatFinder_def Let_def)

text \<open>
  C2 as stated fails. On a store where a record carries another id than its key, as
  after an update that named an id, the buy succeeds, the bought copy goes under the
  other id, the record under the requested id stays unsold, and the next buy succeeds
  again. And after a successful buy of a record stored under its own id, a later buy of
  the id does not answer \<open>AlreadySold\<close> once an update has set \<open>sold\<close> to false, a delete
  has removed the record, a create has named the id, or a feature has written a record
  that carries the id.
\<close>

theorem buy_contract_counterexample:
  "forged = [(''a'', night\<lparr>id_field := ''z'', updatedAt := Some 6\<rparr>)] \<and>
   snd (buy ''a'' 7 forged) = Inr (night\<lparr>id_field := ''z'', sold := True, updatedAt := Some 7\<rparr>) \<and>
   map_option sold (store_get (fst (buy ''a'' 7 forged)) ''a'') = Some False \<and>
   snd (buy ''a'' 8 (fst (buy ''a'' 7 forged))) =
     Inr (night\<lparr>id_field := ''z'', sold := True, updatedAt := Some 8\<rparr>) \<and>
   snd (buy ''a'' 7 [(''a'', night)]) = Inr (night\<lparr>sold := True, updatedAt := Some 7\<rparr>) \<and>
   snd (buy ''a'' 9 (run [Update ''a'' 8 (no_fields\<lparr>b_sold := Some False\<rparr>)]
     (fst (buy ''a'' 7 [(''a'', night)])))) =
     Inr (night\<lparr>sold := True, updatedAt := Some 9\<rparr>) \<and>
   snd (buy ''a'' 9 (run [Delete ''a''] (fst (buy ''a'' 7 [(''a'', night)])))) = Inl NotFound \<and>
   snd (buy ''a'' 9 (run [Create ''c'' 8 (night_body\<lparr>n_id := Some ''a''\<rparr>)]
     (fst (buy ''a'' 7 [(''a'', night)])))) =
     Inr (night\<lparr>createdAt := 8, sold := True, updatedAt := Some 9\<rparr>) \<and>
   snd (buy ''a'' 11
     (run [Create ''b'' 8 night_body, Update ''b'' 9 (no_fields\<lparr>b_id := Some ''a''\<rparr>),
           Feature ''b'' 10]
        (fst (buy ''a'' 7 [(''a'', night)])))) =
     Inr (night\<lparr>createdAt := 8, sold := True, featured := True, updatedAt := Some 11\<rparr>)"
  by (simp add: forged_def night_def night_body_def plain_body_def no_fields_def create_def
      new_beat_def update_def merge_def buy_def feature_def delete_def beatFinder_def Let_def)

section \<open>The time of the last change\<close>

lemma step_mutated:
  assumes "\<forall>k b. store_get s k = Some b \<longrightarrow> (updatedAt b = None \<longleftrightarrow> k \<notin> m)"
  shows "\<forall>k b. store_get (step c s) k = Some b \<longrightarrow>
           (updatedAt b = None \<longleftrightarrow> k \<notin> mutated c s m)"
proof (cases c)
  case (Create uuid now body)
  with assms show ?thesis
    by (auto simp: create_def new_beat_def Let_def get_insert split: if_splits)
next
  case (Update k0 now body)
  with assms show ?thesis
    by (auto simp: update_def beatFinder_def Let_def get_insert merge_def
        split: option.splits if_splits)
next
  case (Delete k0)
  with assms show ?thesis
    by (auto simp: delete_def get_remove split: option.splits if_splits)
next
  case (Buy k0 now)
  with assms show ?thesis
    by (auto simp: buy_def beatFinder_def Let_def get_insert split: option.splits if_splits)
next
  case (Feature k0 now)
  with assms show ?thesis
    by (auto simp: feature_def beatFinder_def Let_def get_insert
        split: option.splits if_splits)
qed (use assms in simp_all)

lemma run_mutated:
  "\<forall>k b. store_get s k = Some b \<longrightarrow> (updatedAt b = None \<longleftrightarrow> k \<notin> m) \<Longrightarrow>
   \<forall>k b. store_get (run cs s) k = Some b \<longrightarrow>
     (updatedAt b = None \<longleftrightarrow> k \<notin> mutated_run cs s m)"
proof (induction cs arbitrary: s m)
  case Nil
  then show ?case by simp
next
  case (Cons c cs)
  from step_mutated [OF Cons.prems, of c] Cons.IH [of "step c s" "mutated c s m"]
  show ?case by simp
qed

text \<open>
  C5. In every store reached from the empty one, a stored record has no \<open>updatedAt\<close>
  exactly when no update, buy or feature has written it since a create wrote it. A
  create returns a record without \<open>updatedAt\<close>; a successful update, buy or feature
  returns a record whose \<open>updatedAt\<close> is the current time.
\<close>

theorem updatedAt_absent_iff:
  "(\<forall>b. store_get (run cs []) k = Some b \<longrightarrow>
      (updatedAt b = None \<longleftrightarrow> k \<notin> mutated_run cs [] {})) \<and>
   updatedAt (snd (create uuid now nbody s)) = None \<and>
   (\<forall>b. snd (update k now body s) = Inr b \<longrightarrow> updatedAt b = Some now) \<and>
   (\<forall>b. snd (buy k now s) = Inr b \<longrightarrow> updatedAt b = Some now) \<and>
   (\<forall>b. snd (feature k now s) = Inr b \<longrightarrow> updatedAt b = Some now)"
proof -
  have "\<forall>k b. store_get (run cs []) k = Some b \<longrightarrow>
      (updatedAt b = None \<longleftrightarrow> k \<notin> mutated_run cs [] {})"
    by (rule run_mutated) simp
  then show ?thesis
    by (auto simp: create_def new_beat_def update_def merge_def buy_def feature_def
        beatFinder_def Let_def split: option.splits if_splits)
qed

theorem updatedAt_absent_iff_witness:
  "store_get (run [Create ''a'' 5 night_body, Create ''b'' 6 night_body, Buy ''a'' 7] []) ''a'' =
     Some (night\<lparr>sold := True, updatedAt := Some 7\<rparr>) \<and>
   ''a'' \<in> mutated_run [Create ''a'' 5 night_body, Create ''b'' 6 night_body, Buy ''a'' 7] [] {} \<and>
   store_get (run [Create ''a'' 5 night_body, Create ''b'' 6 night_body, Buy ''a'' 7] []) ''b'' =
     Some (night\<lparr>id_field := ''b'', createdAt := 6\<rparr>) \<and>
   ''b'' \<notin> mutated_run [Create ''a'' 5 night_body, Create ''b'' 6 night_body, Buy ''a'' 7] [] {} \<and>
   snd (update ''a'' 8 (only_price 3) [(''a'', night)]) =
     Inr (night\<lparr>price := 3, updatedAt := Some 8\<rparr>) \<and>
   snd (buy ''a'' 8 [(''a'', night)]) = Inr (night\<lparr>sold := True, updatedAt := Some 8\<rparr>) \<and>
   snd (feature ''a'' 8 [(''a'', night)]) = Inr (night\<lparr>featured := True, updatedAt := Some 8\<rparr>)"
  using updatedAt_absent_iff [of "[Create ''a'' 5 night_body, Create ''b'' 6 night_body, Buy ''a'' 7]"
      "''a''" "''a''" 8 night_body "[(''a'', night)]" "only_price 3"]
    updatedAt_absent_iff [of "[Create ''a'' 5 night_body, Create ''b'' 6 night_body, Buy ''a'' 7]"
      "''b''" "''a''" 8 night_body "[(''a'', night)]" "only_price 3"]
  by (simp add: night_def night_body_def plain_body_def only_price_def no_fields_def create_def
      new_beat_def update_def merge_def buy_def feature_def beatFinder_def Let_def)

end
